theory Spec2Isabelle
  imports Complex_Main "HOL-Library.Sublist" "HOL-Library.Word" "HOL-Library.Log_Nat"
begin

section \<open>Strings, bytes and runes\<close>

text \<open>
  A Go string is a sequence of bytes; \<^typ>\<open>string\<close> is a list of 8-bit characters, so the
  two coincide.  A rune is modelled as a natural number.
\<close>

definition byte :: "char \<Rightarrow> nat" where
  "byte c = of_char c"

definition RuneError :: nat where
  "RuneError = 0xFFFD"

definition MaxRune :: nat where
  "MaxRune = 0x10FFFF"

definition RuneSelf :: nat where
  "RuneSelf = 0x80"

definition ValidRune :: "nat \<Rightarrow> bool" where
  "ValidRune r = (r < 0xD800 \<or> (0xDFFF < r \<and> r \<le> MaxRune))"

text \<open>
  \<open>utf8.DecodeRuneInString\<close>: the rune at the head of the string and its width in bytes.
  The lead byte selects the width and the range accepted for the second byte (the table
  \<open>first\<close> with \<open>acceptRanges\<close>); an ill-formed sequence decodes to \<open>RuneError\<close> with
  width 1, the empty string to \<open>RuneError\<close> with width 0.
\<close>

definition acceptRange :: "nat \<Rightarrow> (nat \<times> nat \<times> nat) option" where
  "acceptRange s0 =
     (if 0xC2 \<le> s0 \<and> s0 \<le> 0xDF then Some (2, 0x80, 0xBF)
      else if s0 = 0xE0 then Some (3, 0xA0, 0xBF)
      else if 0xE1 \<le> s0 \<and> s0 \<le> 0xEC then Some (3, 0x80, 0xBF)
      else if s0 = 0xED then Some (3, 0x80, 0x9F)
      else if 0xEE \<le> s0 \<and> s0 \<le> 0xEF then Some (3, 0x80, 0xBF)
      else if s0 = 0xF0 then Some (4, 0x90, 0xBF)
      else if 0xF1 \<le> s0 \<and> s0 \<le> 0xF3 then Some (4, 0x80, 0xBF)
      else if s0 = 0xF4 then Some (4, 0x80, 0x8F)
      else None)"

definition contb :: "nat \<Rightarrow> bool" where
  "contb b = (0x80 \<le> b \<and> b \<le> 0xBF)"

definition DecodeRuneInString :: "string \<Rightarrow> nat \<times> nat" where
  "DecodeRuneInString s =
     (case s of
        [] \<Rightarrow> (RuneError, 0)
      | c0 # t \<Rightarrow>
          let s0 = byte c0 in
          if s0 < RuneSelf then (s0, 1)
          else
            (case acceptRange s0 of
               None \<Rightarrow> (RuneError, 1)
             | Some (sz, lo, hi) \<Rightarrow>
                 if length s < sz then (RuneError, 1)
                 else
                   let s1 = byte (s ! 1) in
                   if s1 < lo \<or> hi < s1 then (RuneError, 1)
                   else if sz \<le> 2 then ((s0 mod 0x20) * 0x40 + s1 mod 0x40, 2)
                   else
                     let s2 = byte (s ! 2) in
                     if \<not> contb s2 then (RuneError, 1)
                     else if sz \<le> 3 then
                       ((s0 mod 0x10) * 0x1000 + (s1 mod 0x40) * 0x40 + s2 mod 0x40, 3)
                     else
                       let s3 = byte (s ! 3) in
                       if \<not> contb s3 then (RuneError, 1)
                       else ((s0 mod 8) * 0x40000 + (s1 mod 0x40) * 0x1000
                               + (s2 mod 0x40) * 0x40 + s3 mod 0x40, 4)))"

text \<open>\<open>utf8.EncodeRune\<close>: an invalid rune is written as \<open>RuneError\<close>.\<close>

definition EncodeRune :: "nat \<Rightarrow> string" where
  "EncodeRune r0 =
     (if r0 \<le> 0x7F then [char_of r0]
      else if r0 \<le> 0x7FF then [char_of (0xC0 + r0 div 0x40), char_of (0x80 + r0 mod 0x40)]
      else
        let r = (if ValidRune r0 then r0 else RuneError) in
        if r \<le> 0xFFFF then
          [char_of (0xE0 + r div 0x1000), char_of (0x80 + (r div 0x40) mod 0x40),
           char_of (0x80 + r mod 0x40)]
        else
          [char_of (0xF0 + r div 0x40000), char_of (0x80 + (r div 0x1000) mod 0x40),
           char_of (0x80 + (r div 0x40) mod 0x40), char_of (0x80 + r mod 0x40)])"

text \<open>
  \<open>utf8.ValidString\<close>: every position starts a well-formed sequence, that is, no decoding
  step yields the width-1 \<open>RuneError\<close>.
\<close>

function ValidString :: "string \<Rightarrow> bool" where
  "ValidString s =
     (if s = [] then True
      else
        let (r, size) = DecodeRuneInString s in
        if r = RuneError \<and> size = 1 then False else ValidString (drop size s))"
  by pat_completeness auto

lemma DecodeRuneInString_size_pos: "s \<noteq> [] \<Longrightarrow> 0 < snd (DecodeRuneInString s)"
  by (cases s) (auto simp: DecodeRuneInString_def Let_def split: option.splits)

termination ValidString
proof (relation "measure length")
  show "wf (measure length)" by simp
next
  fix s :: string and x r size
  assume "s \<noteq> []" and "x = DecodeRuneInString s" and "(r, size) = x"
    and "\<not> (r = RuneError \<and> size = 1)"
  then have "0 < size"
    using DecodeRuneInString_size_pos [of s] by (metis snd_conv)
  with \<open>s \<noteq> []\<close> show "(drop size s, s) \<in> measure length" by simp
qed

declare ValidString.simps [simp del]


section \<open>\<open>strconv.Unquote\<close>\<close>

text \<open>
  \<open>strconv.UnquoteChar\<close>: decodes the first character or escape sequence of \<open>s\<close> inside a
  literal delimited by \<open>quote\<close>.  The result is the rune, whether it is to be written as a
  multi-byte UTF-8 sequence, and the remaining text; \<open>None\<close> is \<open>ErrSyntax\<close>.
  Go accumulates the hexadecimal digits in a 32-bit signed rune; a value that overflows there
  is rejected by \<open>utf8.ValidRune\<close>, as is its unbounded counterpart here.
\<close>

definition unhex :: "char \<Rightarrow> nat option" where
  "unhex c =
     (let b = byte c in
      if 0x30 \<le> b \<and> b \<le> 0x39 then Some (b - 0x30)
      else if 0x61 \<le> b \<and> b \<le> 0x66 then Some (b - 0x61 + 10)
      else if 0x41 \<le> b \<and> b \<le> 0x46 then Some (b - 0x41 + 10)
      else None)"

fun hexval :: "nat \<Rightarrow> string \<Rightarrow> nat option" where
  "hexval v [] = Some v"
| "hexval v (c # cs) = (case unhex c of None \<Rightarrow> None | Some x \<Rightarrow> hexval (v * 16 + x) cs)"

fun octval :: "nat \<Rightarrow> string \<Rightarrow> nat option" where
  "octval v [] = Some v"
| "octval v (c # cs) =
     (let b = byte c in
      if b < 0x30 \<or> 0x37 < b then None else octval (v * 8 + (b - 0x30)) cs)"

definition simple_escape :: "char \<Rightarrow> nat option" where
  "simple_escape c =
     (if c = CHR ''a'' then Some 7
      else if c = CHR ''b'' then Some 8
      else if c = CHR ''f'' then Some 12
      else if c = CHR ''n'' then Some 10
      else if c = CHR ''r'' then Some 13
      else if c = CHR ''t'' then Some 9
      else if c = CHR ''v'' then Some 11
      else if c = CHR 0x5C then Some 0x5C
      else None)"

definition hex_escape :: "nat \<Rightarrow> bool \<Rightarrow> string \<Rightarrow> (nat \<times> bool \<times> string) option" where
  "hex_escape n is_x s =
     (if length s < n then None
      else
        (case hexval 0 (take n s) of
           None \<Rightarrow> None
         | Some v \<Rightarrow>
             if is_x then Some (v, False, drop n s)
             else if ValidRune v then Some (v, True, drop n s)
             else None))"

definition UnquoteChar :: "string \<Rightarrow> char \<Rightarrow> (nat \<times> bool \<times> string) option" where
  "UnquoteChar s quote =
     (case s of
        [] \<Rightarrow> None
      | c0 # t \<Rightarrow>
          if c0 = quote \<and> (quote = CHR 0x27 \<or> quote = CHR 0x22) then None
          else if RuneSelf \<le> byte c0 then
            (let (r, size) = DecodeRuneInString s in Some (r, True, drop size s))
          else if c0 \<noteq> CHR 0x5C then Some (byte c0, False, t)
          else
            (case t of
               [] \<Rightarrow> None
             | c # s' \<Rightarrow>
                 (case simple_escape c of
                    Some v \<Rightarrow> Some (v, False, s')
                  | None \<Rightarrow>
                      if c = CHR ''x'' then hex_escape 2 True s'
                      else if c = CHR ''u'' then hex_escape 4 False s'
                      else if c = CHR ''U'' then hex_escape 8 False s'
                      else if 0x30 \<le> byte c \<and> byte c \<le> 0x37 then
                        (if length s' < 2 then None
                         else
                           (case octval (byte c - 0x30) (take 2 s') of
                              None \<Rightarrow> None
                            | Some v \<Rightarrow> if 255 < v then None else Some (v, False, drop 2 s')))
                      else if c = CHR 0x27 \<or> c = CHR 0x22 then
                        (if c \<noteq> quote then None else Some (byte c, False, s'))
                      else None)))"

lemma UnquoteChar_shorter:
  assumes "UnquoteChar s quote = Some (v, mb, t)"
  shows "length t < length s"
proof (cases s)
  case Nil
  with assms show ?thesis by (simp add: UnquoteChar_def)
next
  case (Cons c0 s1)
  have dec: "0 < snd (DecodeRuneInString s)"
    using Cons DecodeRuneInString_size_pos by blast
  show ?thesis
  proof (cases "RuneSelf \<le> byte c0")
    case True
    with assms Cons dec show ?thesis
      by (auto simp: UnquoteChar_def split: if_splits prod.splits)
  next
    case False
    with assms Cons show ?thesis
      by (auto simp: UnquoteChar_def hex_escape_def
               split: if_splits list.splits option.splits)
  qed
qed

text \<open>
  The loop of \<open>Unquote\<close> over the body of a quoted literal: each decoded character is
  appended to the buffer as a single byte or as its UTF-8 encoding; a single-quoted literal
  holds exactly one character.
\<close>

function unquote_loop :: "char \<Rightarrow> string \<Rightarrow> string option" where
  "unquote_loop quote s =
     (if s = [] then Some []
      else
        (case UnquoteChar s quote of
           None \<Rightarrow> None
         | Some (c, multibyte, ss) \<Rightarrow>
             let out = (if c < RuneSelf \<or> \<not> multibyte then [char_of c] else EncodeRune c) in
             if quote = CHR 0x27 \<and> ss \<noteq> [] then None
             else map_option (\<lambda>r. out @ r) (unquote_loop quote ss)))"
  by pat_completeness auto

termination unquote_loop
proof (relation "measure (\<lambda>(q, s). length s)")
  show "wf (measure (\<lambda>(q, s). length s))" by simp
next
  fix quote :: char and s :: string and x2 x y x2a xa ya and xb :: string
  assume "UnquoteChar s quote = Some x2" and "(x, y) = x2" and "(xa, ya) = y"
  then have "UnquoteChar s quote = Some (x, xa, ya)" by simp
  then have "length ya < length s" by (rule UnquoteChar_shorter)
  then show "((quote, ya), quote, s) \<in> measure (\<lambda>(q, s). length s)" by simp
qed

declare unquote_loop.simps [simp del]

text \<open>
  \<open>strconv.Unquote\<close>: interprets \<open>s\<close> as a double-quoted, single-quoted or back-quoted Go
  literal and returns the string it quotes; \<open>None\<close> is \<open>ErrSyntax\<close>.
\<close>

definition Unquote :: "string \<Rightarrow> string option" where
  "Unquote s0 =
     (let n = length s0 in
      if n < 2 then None
      else
        let quote = s0 ! 0 in
        if quote \<noteq> s0 ! (n - 1) then None
        else
          let s = take (n - 2) (drop 1 s0) in
          if quote = CHR 0x60 then
            (if CHR 0x60 \<in> set s then None
             else if CHR 0x0D \<in> set s then Some (filter (\<lambda>c. c \<noteq> CHR 0x0D) s)
             else Some s)
          else if quote \<noteq> CHR 0x22 \<and> quote \<noteq> CHR 0x27 then None
          else if CHR 0x0A \<in> set s then None
          else if CHR 0x5C \<notin> set s \<and> quote \<notin> set s \<and>
                  (if quote = CHR 0x22 then ValidString s
                   else (let (r, size) = DecodeRuneInString s
                         in size = length s \<and> (r \<noteq> RuneError \<or> size \<noteq> 1)))
          then Some s
          else unquote_loop quote s)"


section \<open>The five patterns of the extractor\<close>

text \<open>
  The patterns are \<^verbatim>\<open>Got a query: query:(.*)\<close>, \<^verbatim>\<open>".*?"\<close>, \<^verbatim>\<open>vars:<.*?>\<close>,
  \<^verbatim>\<open>key:"(.*?)"\<close> and \<^verbatim>\<open>value:"(.*?)"\<close>.  Go's \<open>regexp\<close> returns the leftmost match
  and, among the matches that start there, the one a backtracking search finds first; the dot
  matches every character but the line feed.  All literal characters of the patterns are
  ASCII, so matching bytes and matching runes agree on where a match starts and ends.
\<close>

definition newline :: char where
  "newline = CHR 0x0A"

text \<open>\<open>lit_then_rest p s\<close>: the text after the leftmost occurrence of the literal \<open>p\<close>.\<close>

fun lit_then_rest :: "string \<Rightarrow> string \<Rightarrow> string option" where
  "lit_then_rest p [] = (if p = [] then Some [] else None)"
| "lit_then_rest p (c # cs) =
     (if prefix p (c # cs) then Some (drop (length p) (c # cs)) else lit_then_rest p cs)"

text \<open>
  \<open>lazy_to q s\<close>: the match of \<^verbatim>\<open>.*?\<close> followed by the literal \<open>q\<close>, anchored at the head
  of \<open>s\<close>: the shortest run of characters other than the line feed after which \<open>q\<close> follows.
  The result is that run and the text after \<open>q\<close>.
\<close>

fun lazy_to :: "string \<Rightarrow> string \<Rightarrow> (string \<times> string) option" where
  "lazy_to q [] = (if q = [] then Some ([], []) else None)"
| "lazy_to q (c # cs) =
     (if prefix q (c # cs) then Some ([], drop (length q) (c # cs))
      else if c = newline then None
      else map_option (\<lambda>(g, r). (c # g, r)) (lazy_to q cs))"

text \<open>
  \<open>find_lazy p q s\<close>: the leftmost match of the literal \<open>p\<close>, \<^verbatim>\<open>(.*?)\<close> and the literal
  \<open>q\<close> in \<open>s\<close>: the group and the text after the match.
\<close>

fun find_lazy :: "string \<Rightarrow> string \<Rightarrow> string \<Rightarrow> (string \<times> string) option" where
  "find_lazy p q [] = (if p = [] then lazy_to q [] else None)"
| "find_lazy p q (c # cs) =
     (case (if prefix p (c # cs) then lazy_to q (drop (length p) (c # cs)) else None) of
        Some r \<Rightarrow> Some r
      | None \<Rightarrow> find_lazy p q cs)"

text \<open>
  The results of \<open>FindStringSubmatch\<close> are lists: empty (Go's \<open>nil\<close>) when nothing matches,
  otherwise the whole match followed by the groups.
\<close>

definition isQuery :: "string \<Rightarrow> string list" where
  "isQuery s =
     (case lit_then_rest ''Got a query: query:'' s of
        None \<Rightarrow> []
      | Some r \<Rightarrow>
          let g = takeWhile (\<lambda>c. c \<noteq> newline) r in [''Got a query: query:'' @ g, g])"

definition queryRe :: "string \<Rightarrow> string list" where
  "queryRe s =
     (case find_lazy [CHR 0x22] [CHR 0x22] s of
        None \<Rightarrow> []
      | Some (g, r) \<Rightarrow> [[CHR 0x22] @ g @ [CHR 0x22]])"

definition keyRe :: "string \<Rightarrow> string list" where
  "keyRe s =
     (case find_lazy (''key:'' @ [CHR 0x22]) [CHR 0x22] s of
        None \<Rightarrow> []
      | Some (g, r) \<Rightarrow> [''key:'' @ [CHR 0x22] @ g @ [CHR 0x22], g])"

definition valRe :: "string \<Rightarrow> string list" where
  "valRe s =
     (case find_lazy (''value:'' @ [CHR 0x22]) [CHR 0x22] s of
        None \<Rightarrow> []
      | Some (g, r) \<Rightarrow> [''value:'' @ [CHR 0x22] @ g @ [CHR 0x22], g])"

lemma lazy_to_shorter: "lazy_to q s = Some (g, r) \<Longrightarrow> length r \<le> length s"
  by (induction s arbitrary: g) (auto split: if_splits)

lemma find_lazy_shorter:
  "p \<noteq> [] \<Longrightarrow> find_lazy p q s = Some (g, r) \<Longrightarrow> length r < length s"
proof (induction s)
  case Nil
  then show ?case by simp
next
  case (Cons c cs)
  show ?case
  proof (cases "prefix p (c # cs) \<and> lazy_to q (drop (length p) (c # cs)) \<noteq> None")
    case True
    with Cons.prems have "lazy_to q (drop (length p) (c # cs)) = Some (g, r)"
      by auto
    then have "length r \<le> length (drop (length p) (c # cs))"
      by (rule lazy_to_shorter)
    with \<open>p \<noteq> []\<close> show ?thesis by (cases p) auto
  next
    case False
    with Cons.prems have "find_lazy p q cs = Some (g, r)"
      by (auto split: if_splits option.splits)
    with Cons.IH \<open>p \<noteq> []\<close> show ?thesis by fastforce
  qed
qed

text \<open>
  \<open>varRe.FindAllStringSubmatch(s, -1)\<close>: the successive non-overlapping matches of
  \<^verbatim>\<open>vars:<.*?>\<close>, each a one-element list (the pattern has no group).
\<close>

function varRe_all :: "string \<Rightarrow> string list list" where
  "varRe_all s =
     (case find_lazy ''vars:<'' ''>'' s of
        None \<Rightarrow> []
      | Some (g, r) \<Rightarrow> [''vars:<'' @ g @ ''>''] # varRe_all r)"
  by pat_completeness auto

termination varRe_all
proof (relation "measure length")
  show "wf (measure length)" by simp
next
  fix s :: string and x2 g r
  assume "find_lazy ''vars:<'' ''>'' s = Some x2" and "(g, r) = x2"
  then have "find_lazy ''vars:<'' ''>'' s = Some (g, r)" by simp
  then have "length r < length s"
    by (rule find_lazy_shorter [rotated]) simp
  then show "(r, s) \<in> measure length" by simp
qed

declare varRe_all.simps [simp del]

section \<open>The extractor \<open>getReq\<close>\<close>

record Request =
  Query :: string
  Vars :: "string \<rightharpoonup> string"

text \<open>
  The outcomes of \<open>getReq\<close> other than a request: the two errors it returns, and the run-time
  panic of an index expression on a list too short.
\<close>

datatype error = NotAValidQuery | WhileUnquoting | IndexOutOfRange

text \<open>The loop over the matches of \<open>varRe\<close>, filling the map.\<close>

fun vars_loop :: "string list list \<Rightarrow> (string \<rightharpoonup> string) \<Rightarrow> error + (string \<rightharpoonup> string)" where
  "vars_loop [] mp = Inr mp"
| "vars_loop (v # vs) mp =
     (if length v < 1 then Inl IndexOutOfRange
      else
        let keys = keyRe (v ! 0); vals = valRe (v ! 0) in
        if length keys \<le> 1 \<or> length vals \<le> 1 then Inl IndexOutOfRange
        else vars_loop vs (mp(keys ! 1 \<mapsto> vals ! 1)))"

definition getReq :: "string \<Rightarrow> error + Request" where
  "getReq s =
     (let m = isQuery s in
      if 1 < length m then
        let qm = queryRe (m ! 1) in
        if length qm = 0 then Inl NotAValidQuery
        else
          (case Unquote (qm ! 0) of
             None \<Rightarrow> Inl WhileUnquoting
           | Some query \<Rightarrow>
               let varStr = varRe_all (m ! 1) in
               (case vars_loop varStr Map.empty of
                  Inl e \<Rightarrow> Inl e
                | Inr mp \<Rightarrow> Inr \<lparr>Query = query, Vars = mp\<rparr>))
      else Inl NotAValidQuery)"


section \<open>\<open>json.Unmarshal\<close> into an empty interface\<close>

text \<open>
  The values \<open>json.Unmarshal\<close> stores in an \<open>interface{}\<close>: \<open>nil\<close>, a \<open>bool\<close>, a
  \<open>float64\<close>, a \<open>string\<close>, a \<open>[]interface{}\<close> or a \<open>map[string]interface{}\<close>.
  A finite \<open>float64\<close> is represented by the rational number it denotes (the two zeros
  compare equal in Go, and no JSON text denotes an infinity or a NaN).  A map is represented
  by an association list with one entry for each key; the order of the entries has no
  counterpart in Go and no operation below depends on it other than through lookups.
\<close>

datatype json =
    JNull
  | JBool bool
  | JNumber rat
  | JString string
  | JArray "json list"
  | JObject "(string \<times> json) list"

text \<open>The assignment \<open>m[key] = value\<close> on a map.\<close>

fun map_assign :: "string \<Rightarrow> json \<Rightarrow> (string \<times> json) list \<Rightarrow> (string \<times> json) list" where
  "map_assign k v [] = [(k, v)]"
| "map_assign k v ((k', v') # m) =
     (if k = k' then (k, v) # m else (k', v') # map_assign k v m)"

subsection \<open>Numbers\<close>

text \<open>
  \<open>strconv.ParseFloat(s, 64)\<close> on a decimal literal rounds its exact value to the nearest
  \<open>float64\<close>, ties to the even significand, and reports a range error when the result would
  be infinite.  The exact value is the ratio \<open>num / den\<close> of two positive integers; the
  result is \<open>m * 2 ^ e\<close>, where \<open>e\<close> is the exponent of the last place of a 53-bit
  significand (not below that of the subnormal numbers) and \<open>m\<close> the ratio
  \<open>num / (den * 2 ^ e)\<close> rounded to an integer.
\<close>

definition pow2 :: "int \<Rightarrow> rat" where
  "pow2 e = (if 0 \<le> e then 2 ^ nat e else 1 / 2 ^ nat (- e))"

text \<open>\<open>ge_pow2 num den b\<close>: whether \<open>2 ^ b \<le> num / den\<close>.\<close>

definition ge_pow2 :: "nat \<Rightarrow> nat \<Rightarrow> int \<Rightarrow> bool" where
  "ge_pow2 num den b = (if 0 \<le> b then den * 2 ^ nat b \<le> num else den \<le> num * 2 ^ nat (- b))"

text \<open>
  The exponent of the last place: \<open>b\<close> is the difference of the bit lengths of \<open>num\<close> and
  \<open>den\<close>, so that the binary logarithm of the ratio rounds down to \<open>b\<close> or to \<open>b - 1\<close>.
\<close>

definition last_place_of :: "nat \<Rightarrow> nat \<Rightarrow> int \<Rightarrow> int" where
  "last_place_of num den b = max ((if ge_pow2 num den b then b else b - 1) - 52) (- 1074)"

definition last_place :: "nat \<Rightarrow> nat \<Rightarrow> int" where
  "last_place num den = last_place_of num den (int (floorlog 2 num) - int (floorlog 2 den))"

text \<open>\<open>N / D\<close> rounded to the nearest integer, a tie to the even one.\<close>

definition round_half_even :: "nat \<Rightarrow> nat \<Rightarrow> nat" where
  "round_half_even N D =
     (if 2 * (N mod D) < D then N div D
      else if D < 2 * (N mod D) then N div D + 1
      else if even (N div D) then N div D
      else N div D + 1)"

definition float64_pack :: "bool \<Rightarrow> nat \<Rightarrow> int \<Rightarrow> rat option" where
  "float64_pack neg m e =
     (if 0 \<le> e \<and> 2 ^ 1024 \<le> m * 2 ^ nat e then None
      else Some ((if neg then - 1 else 1) * of_nat m * pow2 e))"

definition float64_round :: "bool \<Rightarrow> nat \<Rightarrow> nat \<Rightarrow> int \<Rightarrow> rat option" where
  "float64_round neg num den e =
     float64_pack neg
       (if 0 \<le> e then round_half_even num (den * 2 ^ nat e)
        else round_half_even (num * 2 ^ nat (- e)) den)
       e"

definition float64_of_ratio :: "bool \<Rightarrow> nat \<Rightarrow> nat \<Rightarrow> rat option" where
  "float64_of_ratio neg num den = float64_round neg num den (last_place num den)"

text \<open>The \<open>float64\<close> nearest to \<open>mant * 10 ^ k\<close>, with the sign \<open>neg\<close>.\<close>

definition float64_of_decimal :: "bool \<Rightarrow> nat \<Rightarrow> int \<Rightarrow> rat option" where
  "float64_of_decimal neg mant k =
     (if mant = 0 then Some 0
      else if 0 \<le> k then float64_of_ratio neg (mant * 10 ^ nat k) 1
      else float64_of_ratio neg mant (10 ^ nat (- k)))"

definition is_digit :: "char \<Rightarrow> bool" where
  "is_digit c = (0x30 \<le> byte c \<and> byte c \<le> 0x39)"

fun digits_val :: "nat \<Rightarrow> string \<Rightarrow> nat" where
  "digits_val v [] = v"
| "digits_val v (c # cs) = digits_val (v * 10 + (byte c - 0x30)) cs"

text \<open>The value of the exponent part: empty, or \<open>e\<close> or \<open>E\<close>, an optional sign and digits.\<close>

fun exponent_val :: "string \<Rightarrow> int" where
  "exponent_val [] = 0"
| "exponent_val [x] = 0"
| "exponent_val (x # c # ds) =
     (if c = CHR ''-'' then - int (digits_val 0 ds)
      else if c = CHR ''+'' then int (digits_val 0 ds)
      else int (digits_val 0 (c # ds)))"

text \<open>
  \<open>convertNumber\<close> of the decoder, on a literal the scanner has accepted: an optional minus
  sign, the integer digits, an optional fraction and an optional exponent.  \<open>None\<close> is the
  \<open>UnmarshalTypeError\<close> that wraps the range error of \<open>ParseFloat\<close>.
\<close>

definition number_parts :: "bool \<Rightarrow> string \<Rightarrow> string \<Rightarrow> string \<Rightarrow> rat option" where
  "number_parts neg ip fp ex =
     float64_of_decimal neg (digits_val 0 (ip @ fp)) (exponent_val ex - int (length fp))"

definition number_fraction :: "bool \<Rightarrow> string \<Rightarrow> string \<Rightarrow> rat option" where
  "number_fraction neg ip r =
     (case r of
        [] \<Rightarrow> number_parts neg ip [] []
      | c # t \<Rightarrow>
          if c = CHR ''.''
          then number_parts neg ip (takeWhile is_digit t) (dropWhile is_digit t)
          else number_parts neg ip [] r)"

definition number_unsigned :: "bool \<Rightarrow> string \<Rightarrow> rat option" where
  "number_unsigned neg s = number_fraction neg (takeWhile is_digit s) (dropWhile is_digit s)"

definition convertNumber :: "string \<Rightarrow> rat option" where
  "convertNumber s =
     (case s of
        [] \<Rightarrow> number_unsigned False s
      | c # t \<Rightarrow> if c = CHR ''-'' then number_unsigned True t else number_unsigned False s)"

subsection \<open>Strings\<close>

text \<open>
  \<open>getu4\<close>: the code unit of a \<^verbatim>\<open>\uXXXX\<close> escape at the head of the text, \<open>None\<close> (Go's
  \<open>-1\<close>) when there is none.
\<close>

definition getu4 :: "string \<Rightarrow> nat option" where
  "getu4 s =
     (if length s < 6 \<or> s ! 0 \<noteq> CHR 0x5C \<or> s ! 1 \<noteq> CHR ''u'' then None
      else hexval 0 (take 4 (drop 2 s)))"

text \<open>\<open>utf16.DecodeRune\<close> on a surrogate pair; \<open>RuneError\<close> when the pair is not valid.\<close>

definition utf16_DecodeRune :: "nat \<Rightarrow> nat option \<Rightarrow> nat" where
  "utf16_DecodeRune r1 r2o =
     (case r2o of
        None \<Rightarrow> RuneError
      | Some r2 \<Rightarrow>
          if 0xD800 \<le> r1 \<and> r1 < 0xDC00 \<and> 0xDC00 \<le> r2 \<and> r2 < 0xE000
          then (r1 - 0xD800) * 0x400 + (r2 - 0xDC00) + 0x10000
          else RuneError)"

definition json_escape :: "char \<Rightarrow> char option" where
  "json_escape c =
     (if c = CHR 0x22 \<or> c = CHR 0x5C \<or> c = CHR ''/'' \<or> c = CHR 0x27 then Some c
      else if c = CHR ''b'' then Some (CHR 0x08)
      else if c = CHR ''f'' then Some (CHR 0x0C)
      else if c = CHR ''n'' then Some (CHR 0x0A)
      else if c = CHR ''r'' then Some (CHR 0x0D)
      else if c = CHR ''t'' then Some (CHR 0x09)
      else None)"

text \<open>
  The second loop of \<open>unquoteBytes\<close>, on the text between the quotes: escapes are replaced
  by what they denote, a surrogate escape that has no partner and an ill-formed UTF-8
  sequence by the replacement character.  \<open>None\<close> is the result \<open>ok = false\<close>.
\<close>

function unquote_slow :: "string \<Rightarrow> string option" where
  "unquote_slow s =
     (case s of
        [] \<Rightarrow> Some []
      | c # t \<Rightarrow>
          if c = CHR 0x5C then
            (case t of
               [] \<Rightarrow> None
             | c1 # t1 \<Rightarrow>
                 if c1 = CHR ''u'' then
                   (case getu4 s of
                      None \<Rightarrow> None
                    | Some rr \<Rightarrow>
                        let s6 = drop 6 s in
                        if 0xD800 \<le> rr \<and> rr < 0xE000 then
                          (let dec = utf16_DecodeRune rr (getu4 s6) in
                           if dec \<noteq> RuneError
                           then map_option (\<lambda>r. EncodeRune dec @ r) (unquote_slow (drop 6 s6))
                           else map_option (\<lambda>r. EncodeRune RuneError @ r) (unquote_slow s6))
                        else map_option (\<lambda>r. EncodeRune rr @ r) (unquote_slow s6))
                 else
                   (case json_escape c1 of
                      None \<Rightarrow> None
                    | Some x \<Rightarrow> map_option (\<lambda>r. x # r) (unquote_slow t1)))
          else if c = CHR 0x22 \<or> byte c < 0x20 then None
          else if byte c < RuneSelf then map_option (\<lambda>r. c # r) (unquote_slow t)
          else
            (let (rr, size) = DecodeRuneInString s
             in map_option (\<lambda>r. EncodeRune rr @ r) (unquote_slow (drop size s))))"
  by pat_completeness auto

termination unquote_slow
proof (relation "measure length", goal_cases)
  case 1
  show ?case by simp
next
  case (2 s c t c1 t1 rr s6 dec)
  then show ?case by simp
next
  case (3 s c t c1 t1 rr s6 dec)
  then show ?case by simp
next
  case (4 s c t c1 t1 rr s6)
  then show ?case by simp
next
  case (5 s c t c1 t1 x)
  then show ?case by simp
next
  case (6 s c t)
  then show ?case by simp
next
  case (7 s c t x rr size)
  then have "0 < size"
    using DecodeRuneInString_size_pos [of s] by (metis list.distinct(1) snd_conv)
  with 7 show ?case by simp
qed

declare unquote_slow.simps [simp del]

text \<open>
  The first loop of \<open>unquoteBytes\<close> copies the longest prefix that needs no change: no
  backslash, quote or control character, and no ill-formed UTF-8.  \<open>plain_prefix s\<close> is
  the length of that prefix.
\<close>

function plain_prefix :: "string \<Rightarrow> nat" where
  "plain_prefix s =
     (case s of
        [] \<Rightarrow> 0
      | c # t \<Rightarrow>
          if c = CHR 0x5C \<or> c = CHR 0x22 \<or> byte c < 0x20 then 0
          else if byte c < RuneSelf then 1 + plain_prefix t
          else
            (let (rr, size) = DecodeRuneInString s
             in if rr = RuneError \<and> size = 1 then 0 else size + plain_prefix (drop size s)))"
  by pat_completeness auto

termination plain_prefix
proof (relation "measure length", goal_cases)
  case 1
  show ?case by simp
next
  case (2 s c t)
  then show ?case by simp
next
  case (3 s c t x rr size)
  then have "0 < size"
    using DecodeRuneInString_size_pos [of s] by (metis list.distinct(1) snd_conv)
  with 3 show ?case by simp
qed

declare plain_prefix.simps [simp del]

text \<open>\<open>unquote\<close> of the decoder, applied to the text between the quotes of a literal.\<close>

definition json_unquote :: "string \<Rightarrow> string option" where
  "json_unquote s =
     (let r = plain_prefix s in
      if r = length s then Some s
      else map_option (\<lambda>t. take r s @ t) (unquote_slow (drop r s)))"


subsection \<open>The scanner and the decoder\<close>

text \<open>
  \<open>encoding/json\<close> reads its input one byte at a time through a state machine (the
  \<open>step\<close> functions of \<open>scanner.go\<close>) with a stack of the containers that are open
  (\<open>parseState\<close>); the decoder builds the values along the way.  A \<open>mode\<close> is the current
  step function, a \<open>frame\<close> an open container with what has been stored in it so far.
\<close>

datatype mode =
    BeginValue
  | BeginValueOrEmpty
  | BeginStringOrEmpty
  | BeginString
  | EndValue
  | EndTop
  | InString
  | InStringEsc
  | InStringEscU nat
  | Neg
  | Num0
  | Num1
  | Dot
  | Dot0
  | ExpE
  | ESign
  | E0
  | Lit string json

datatype frame =
    FArr "json list"
  | FObjKey "(string \<times> json) list"
  | FObjColon "(string \<times> json) list" string
  | FObjVal "(string \<times> json) list" string
  | FObjNext "(string \<times> json) list"

record decoder =
  mode :: mode
  stack :: "frame list"
  buf :: string
  result :: "json option"

definition maxNestingDepth :: nat where
  "maxNestingDepth = 10000"

definition isSpace :: "char \<Rightarrow> bool" where
  "isSpace c = (c = CHR '' '' \<or> c = CHR 0x09 \<or> c = CHR 0x0D \<or> c = CHR 0x0A)"

definition is_hex :: "char \<Rightarrow> bool" where
  "is_hex c = (unhex c \<noteq> None)"

text \<open>A value is complete: it is stored in the innermost open container, or is the result.\<close>

fun complete :: "json \<Rightarrow> frame list \<Rightarrow> decoder option" where
  "complete v [] = Some \<lparr>mode = EndTop, stack = [], buf = [], result = Some v\<rparr>"
| "complete v (FArr xs # fs) =
     Some \<lparr>mode = EndValue, stack = FArr (xs @ [v]) # fs, buf = [], result = None\<rparr>"
| "complete v (FObjVal m k # fs) =
     Some \<lparr>mode = EndValue, stack = FObjNext (map_assign k v m) # fs, buf = [], result = None\<rparr>"
| "complete (JString k) (FObjKey m # fs) =
     Some \<lparr>mode = EndValue, stack = FObjColon m k # fs, buf = [], result = None\<rparr>"
| "complete v (f # fs) = None"

text \<open>\<open>pushParseState\<close>: opening a container beyond the nesting limit is an error.\<close>

definition pushParseState :: "frame \<Rightarrow> mode \<Rightarrow> frame list \<Rightarrow> decoder option" where
  "pushParseState f successState fs =
     (if length (f # fs) \<le> maxNestingDepth
      then Some \<lparr>mode = successState, stack = f # fs, buf = [], result = None\<rparr>
      else None)"

text \<open>\<open>stateEndValue\<close> and \<open>stateEndTop\<close>: the byte after a complete value.\<close>

definition stateEndValue :: "decoder \<Rightarrow> char \<Rightarrow> decoder option" where
  "stateEndValue d c =
     (case stack d of
        [] \<Rightarrow> if isSpace c then Some (d\<lparr>mode := EndTop\<rparr>) else None
      | f # fs \<Rightarrow>
          if isSpace c then Some (d\<lparr>mode := EndValue\<rparr>)
          else
            (case f of
               FObjColon m k \<Rightarrow>
                 if c = CHR '':'' then Some (d\<lparr>mode := BeginValue, stack := FObjVal m k # fs\<rparr>)
                 else None
             | FObjNext m \<Rightarrow>
                 if c = CHR '','' then Some (d\<lparr>mode := BeginString, stack := FObjKey m # fs\<rparr>)
                 else if c = CHR ''}'' then complete (JObject m) fs
                 else None
             | FArr xs \<Rightarrow>
                 if c = CHR '','' then Some (d\<lparr>mode := BeginValue\<rparr>)
                 else if c = CHR '']'' then complete (JArray xs) fs
                 else None
             | _ \<Rightarrow> None))"

text \<open>\<open>stateBeginValue\<close>, on a byte that is not white space.\<close>

definition stateBeginValue :: "decoder \<Rightarrow> char \<Rightarrow> decoder option" where
  "stateBeginValue d c =
     (if c = CHR ''{'' then pushParseState (FObjKey []) BeginStringOrEmpty (stack d)
      else if c = CHR ''['' then pushParseState (FArr []) BeginValueOrEmpty (stack d)
      else if c = CHR 0x22 then Some (d\<lparr>mode := InString, buf := []\<rparr>)
      else if c = CHR ''-'' then Some (d\<lparr>mode := Neg, buf := [c]\<rparr>)
      else if c = CHR ''0'' then Some (d\<lparr>mode := Num0, buf := [c]\<rparr>)
      else if c = CHR ''t'' then Some (d\<lparr>mode := Lit ''rue'' (JBool True)\<rparr>)
      else if c = CHR ''f'' then Some (d\<lparr>mode := Lit ''alse'' (JBool False)\<rparr>)
      else if c = CHR ''n'' then Some (d\<lparr>mode := Lit ''ull'' JNull\<rparr>)
      else if is_digit c then Some (d\<lparr>mode := Num1, buf := [c]\<rparr>)
      else None)"

text \<open>
  A number ends at the first byte that cannot continue it: the literal is converted and
  stored, and the byte is then read by \<open>stateEndValue\<close>.
\<close>

definition end_number :: "decoder \<Rightarrow> char \<Rightarrow> decoder option" where
  "end_number d c =
     (case convertNumber (buf d) of
        None \<Rightarrow> None
      | Some x \<Rightarrow>
          (case complete (JNumber x) (stack d) of
             None \<Rightarrow> None
           | Some d' \<Rightarrow> stateEndValue d' c))"

definition state0 :: "decoder \<Rightarrow> char \<Rightarrow> decoder option" where
  "state0 d c =
     (if c = CHR ''.'' then Some (d\<lparr>mode := Dot, buf := buf d @ [c]\<rparr>)
      else if c = CHR ''e'' \<or> c = CHR ''E'' then Some (d\<lparr>mode := ExpE, buf := buf d @ [c]\<rparr>)
      else end_number d c)"

definition stateESign :: "decoder \<Rightarrow> char \<Rightarrow> decoder option" where
  "stateESign d c =
     (if is_digit c then Some (d\<lparr>mode := E0, buf := buf d @ [c]\<rparr>) else None)"

text \<open>One step of the machine.\<close>

definition step :: "decoder \<Rightarrow> char \<Rightarrow> decoder option" where
  "step d c =
     (case mode d of
        BeginValue \<Rightarrow> if isSpace c then Some d else stateBeginValue d c
      | BeginValueOrEmpty \<Rightarrow>
          if isSpace c then Some d
          else if c = CHR '']'' then stateEndValue d c
          else stateBeginValue d c
      | BeginStringOrEmpty \<Rightarrow>
          if isSpace c then Some d
          else if c = CHR ''}'' then
            (case stack d of
               FObjKey m # fs \<Rightarrow> stateEndValue (d\<lparr>stack := FObjNext m # fs\<rparr>) c
             | _ \<Rightarrow> None)
          else if c = CHR 0x22 then Some (d\<lparr>mode := InString, buf := []\<rparr>)
          else None
      | BeginString \<Rightarrow>
          if isSpace c then Some d
          else if c = CHR 0x22 then Some (d\<lparr>mode := InString, buf := []\<rparr>)
          else None
      | EndValue \<Rightarrow> stateEndValue d c
      | EndTop \<Rightarrow> if isSpace c then Some d else None
      | InString \<Rightarrow>
          if c = CHR 0x22 then
            (case json_unquote (buf d) of
               None \<Rightarrow> None
             | Some s \<Rightarrow> complete (JString s) (stack d))
          else if c = CHR 0x5C then Some (d\<lparr>mode := InStringEsc, buf := buf d @ [c]\<rparr>)
          else if byte c < 0x20 then None
          else Some (d\<lparr>buf := buf d @ [c]\<rparr>)
      | InStringEsc \<Rightarrow>
          if c = CHR ''b'' \<or> c = CHR ''f'' \<or> c = CHR ''n'' \<or> c = CHR ''r'' \<or> c = CHR ''t''
             \<or> c = CHR 0x5C \<or> c = CHR ''/'' \<or> c = CHR 0x22
          then Some (d\<lparr>mode := InString, buf := buf d @ [c]\<rparr>)
          else if c = CHR ''u'' then Some (d\<lparr>mode := InStringEscU 4, buf := buf d @ [c]\<rparr>)
          else None
      | InStringEscU n \<Rightarrow>
          if is_hex c
          then Some (d\<lparr>mode := (if n \<le> 1 then InString else InStringEscU (n - 1)),
                        buf := buf d @ [c]\<rparr>)
          else None
      | Neg \<Rightarrow>
          if c = CHR ''0'' then Some (d\<lparr>mode := Num0, buf := buf d @ [c]\<rparr>)
          else if is_digit c then Some (d\<lparr>mode := Num1, buf := buf d @ [c]\<rparr>)
          else None
      | Num0 \<Rightarrow> state0 d c
      | Num1 \<Rightarrow> if is_digit c then Some (d\<lparr>buf := buf d @ [c]\<rparr>) else state0 d c
      | Dot \<Rightarrow> if is_digit c then Some (d\<lparr>mode := Dot0, buf := buf d @ [c]\<rparr>) else None
      | Dot0 \<Rightarrow>
          if is_digit c then Some (d\<lparr>buf := buf d @ [c]\<rparr>)
          else if c = CHR ''e'' \<or> c = CHR ''E'' then Some (d\<lparr>mode := ExpE, buf := buf d @ [c]\<rparr>)
          else end_number d c
      | ExpE \<Rightarrow>
          if c = CHR ''+'' \<or> c = CHR ''-'' then Some (d\<lparr>mode := ESign, buf := buf d @ [c]\<rparr>)
          else stateESign d c
      | ESign \<Rightarrow> stateESign d c
      | E0 \<Rightarrow> if is_digit c then Some (d\<lparr>buf := buf d @ [c]\<rparr>) else end_number d c
      | Lit rest v \<Rightarrow>
          (case rest of
             [] \<Rightarrow> None
           | x # rest' \<Rightarrow>
               if c \<noteq> x then None
               else if rest' = [] then complete v (stack d)
               else Some (d\<lparr>mode := Lit rest' v\<rparr>)))"

fun scan :: "decoder \<Rightarrow> string \<Rightarrow> decoder option" where
  "scan d [] = Some d"
| "scan d (c # cs) = (case step d c of None \<Rightarrow> None | Some d' \<Rightarrow> scan d' cs)"

text \<open>
  \<open>eof\<close>: at the end of the input the top-level value must be complete; a number that the
  end of the input terminates is completed by one more step on a space.
\<close>

definition eof :: "decoder \<Rightarrow> json option" where
  "eof d =
     (if mode d = EndTop then result d
      else
        (case step d (CHR '' '') of
           None \<Rightarrow> None
         | Some d' \<Rightarrow> if mode d' = EndTop then result d' else None))"

definition reset :: decoder where
  "reset = \<lparr>mode = BeginValue, stack = [], buf = [], result = None\<rparr>"

text \<open>
  \<open>json.Unmarshal(data, &o)\<close> for \<open>o\<close> of type \<open>interface{}\<close>: the value stored, or \<open>None\<close>
  when it returns an error (a syntax error, or a number outside the range of \<open>float64\<close>).
\<close>

definition Unmarshal :: "string \<Rightarrow> json option" where
  "Unmarshal s = (case scan reset s of None \<Rightarrow> None | Some d \<Rightarrow> eof d)"

section \<open>The comparator \<open>areEqualJSON\<close>\<close>

text \<open>
  \<open>reflect.DeepEqual\<close> on two decoded values: values of different dynamic types differ;
  slices are equal when they have the same length and equal elements at each index; maps
  are equal when they have the same length and every key of the first is a key of the
  second with an equal value.
\<close>

fun DeepEqual :: "json \<Rightarrow> json \<Rightarrow> bool" where
  "DeepEqual JNull JNull = True"
| "DeepEqual (JBool a) (JBool b) = (a = b)"
| "DeepEqual (JNumber a) (JNumber b) = (a = b)"
| "DeepEqual (JString a) (JString b) = (a = b)"
| "DeepEqual (JArray xs) (JArray ys) = (length xs = length ys \<and> list_all2 DeepEqual xs ys)"
| "DeepEqual (JObject m1) (JObject m2) =
     (length m1 = length m2 \<and>
      list_all (\<lambda>kv. case map_of m2 (fst kv) of
                        None \<Rightarrow> False
                      | Some v2 \<Rightarrow> DeepEqual (snd kv) v2) m1)"
| "DeepEqual _ _ = False"

definition areEqualJSON :: "string \<Rightarrow> string \<Rightarrow> bool" where
  "areEqualJSON s1 s2 =
     (case Unmarshal s1 of
        None \<Rightarrow> False
      | Some o1 \<Rightarrow>
          (case Unmarshal s2 of
             None \<Rightarrow> False
           | Some o2 \<Rightarrow> DeepEqual o1 o2))"

section \<open>The replay coordinator \<open>processLog\<close>\<close>



text \<open>
  The goroutines of \<open>processLog\<close> interleave; what they share is the channel \<open>reqCh\<close> and
  the two counters, which they access by channel operations and atomic additions only.
  A worker is at one of the following points of its loop body.
\<close>

datatype worker =
    Receiving
  | RunLeft Request
  | RunRight Request string
  | Compare Request string string
  | AddTotal
  | Returned

record state =
  lines :: "string list"
  closed :: bool
  reqCh :: "Request list"
  workers :: "worker list"
  failed :: nat
  total :: nat
  crashed :: bool


text \<open>
  One turn of the goroutine that reads the log: at the end of the log it closes the channel;
  a line that \<open>getReq\<close> rejects is skipped; a request is sent when the channel has room (the
  goroutine is blocked otherwise, which is \<open>None\<close>).  A panic of \<open>getReq\<close> ends the process.
\<close>

definition produce :: "nat \<Rightarrow> state \<Rightarrow> state option" where
  "produce numGo s =
     (if closed s then None
      else
        (case lines s of
           [] \<Rightarrow> Some (s\<lparr>closed := True\<rparr>)
         | l # ls \<Rightarrow>
             (case getReq l of
                Inl e \<Rightarrow>
                  if e = IndexOutOfRange then Some (s\<lparr>lines := ls, crashed := True\<rparr>)
                  else Some (s\<lparr>lines := ls\<rparr>)
              | Inr r \<Rightarrow>
                  if length (reqCh s) < numGo * 5
                  then Some (s\<lparr>lines := ls, reqCh := reqCh s @ [r]\<rparr>)
                  else None)))"





text \<open>\<open>wg.Wait()\<close> returns, and with it \<open>processLog\<close>, when every worker has returned.\<close>

definition finished :: "state \<Rightarrow> bool" where
  "finished s = list_all (\<lambda>w. w = Returned) (workers s)"

text \<open>What the progress reporter reads: the two counters.\<close>

definition counters :: "state \<Rightarrow> nat \<times> nat" where
  "counters s = (total s, failed s)"

section \<open>Evaluation rules\<close>

lemmas getReq_eval = getReq_def isQuery_def queryRe_def keyRe_def valRe_def varRe_all.simps
  Unquote_def newline_def ValidString.simps Let_def DecodeRuneInString_def byte_def RuneSelf_def
  RuneError_def unquote_loop.simps UnquoteChar_def simple_escape_def

lemmas Unmarshal_eval = Unmarshal_def reset_def eof_def step_def stateBeginValue_def
  stateEndValue_def pushParseState_def maxNestingDepth_def isSpace_def end_number_def state0_def
  stateESign_def is_hex_def unhex_def

lemmas convertNumber_eval = convertNumber_def number_unsigned_def number_fraction_def
  number_parts_def float64_of_decimal_def float64_of_ratio_def float64_round_def float64_pack_def
  round_half_even_def last_place_def last_place_of_def ge_pow2_def pow2_def is_digit_def byte_def
  compute_floorlog

lemmas json_unquote_eval = json_unquote_def plain_prefix.simps unquote_slow.simps RuneSelf_def

section \<open>The comparator on texts that do not parse\<close>


lemma Unmarshal_open_brace: "Unmarshal ''{'' = None"
  by (simp add: Unmarshal_eval)

lemma Unmarshal_12: "Unmarshal ''[1,2]'' = Some (JArray [JNumber 1, JNumber 2])"
  by (simp add: Unmarshal_eval convertNumber_eval)

lemma areEqualJSON_None_left: "Unmarshal s1 = None \<Longrightarrow> \<not> areEqualJSON s1 s2"
  by (simp add: areEqualJSON_def)

lemma areEqualJSON_None_right: "Unmarshal s2 = None \<Longrightarrow> \<not> areEqualJSON s1 s2"
  by (simp add: areEqualJSON_def split: option.splits)

text \<open>
  Claim C3.  If either of the two texts fails to parse as JSON, \<open>areEqualJSON\<close> returns false;
  in particular the text \<^verbatim>\<open>{\<close> compared with any text, on either side, is unequal.
\<close>

theorem areEqualJSON_parse_failure:
  "(Unmarshal s1 = None \<or> Unmarshal s2 = None \<longrightarrow> \<not> areEqualJSON s1 s2)
   \<and> \<not> areEqualJSON ''{'' t \<and> \<not> areEqualJSON t ''{''"
  using areEqualJSON_None_left areEqualJSON_None_right Unmarshal_open_brace by blast

theorem areEqualJSON_parse_failure_witness:
  "Unmarshal ''{'' = None \<and> Unmarshal ''[1,2]'' \<noteq> None \<and> \<not> areEqualJSON ''{'' ''[1,2]''"
  using areEqualJSON_parse_failure [of "''{''" "''[1,2]''" "''[1,2]''"]
  by (simp add: Unmarshal_open_brace Unmarshal_12)

section \<open>A binding without its value\<close>

text \<open>
  Claim C8 says that \<open>getReq\<close> returns normally on a line whose binding lacks its key or its
  value.  On the line below the pattern for the value finds nothing, and the index
  expression \<open>vals[1]\<close> panics.
\<close>

theorem getReq_missing_value_panics:
  \<open>getReq ''Got a query: query:"q" vars:<key:"a">'' = Inl IndexOutOfRange\<close>
  by (simp add: getReq_eval)

section \<open>What the patterns match\<close>

lemma lit_then_rest_None: "lit_then_rest p s = None \<longleftrightarrow> \<not> sublist p s"
  by (induction s) (auto simp: sublist_Cons_right)


lemma isQuery_marker:
  "sublist ''Got a query: query:'' s \<Longrightarrow>
   \<exists>g. isQuery s = [''Got a query: query:'' @ g, g] \<and> newline \<notin> set g"
proof -
  assume "sublist ''Got a query: query:'' s"
  then obtain r where "lit_then_rest ''Got a query: query:'' s = Some r"
    using lit_then_rest_None [of "''Got a query: query:''" s] by auto
  then have "isQuery s = [''Got a query: query:'' @ takeWhile (\<lambda>c. c \<noteq> newline) r,
                          takeWhile (\<lambda>c. c \<noteq> newline) r]"
    by (simp add: isQuery_def Let_def)
  moreover have "newline \<notin> set (takeWhile (\<lambda>c. c \<noteq> newline) r)"
    by (auto dest: set_takeWhileD)
  ultimately show ?thesis by blast
qed


section \<open>Lines that are not queries\<close>


lemma produce_not_sent:
  assumes "\<not> closed s" and "lines s = l # ls" and "getReq l = Inl e"
  shows "\<exists>s'. produce numGo s = Some s' \<and> reqCh s' = reqCh s \<and> total s' = total s
          \<and> failed s' = failed s \<and> workers s' = workers s"
  using assms by (simp add: produce_def)




section \<open>Queries on which a backend call fails\<close>










end
